theory Spec2Isabelle
  imports Main
begin

section \<open>Text written by the programs\<close>

text \<open>
  Python strings are modelled as \<open>string\<close>, each text held as its UTF-8 bytes. The
  two status indicators of \<^verbatim>\<open>hooks/post_gen_project.py\<close> lie outside ASCII: U+2705
  (white heavy check mark) and U+274C (cross mark) are three bytes each, all above 127.
\<close>

definition check_mark :: string where
  "check_mark = [CHR 0xE2, CHR 0x9C, CHR 0x85]"

definition cross_mark :: string where
  "cross_mark = [CHR 0xE2, CHR 0x9D, CHR 0x8C]"

definition newline :: string where
  "newline = [CHR 0x0A]"

definition quote :: string where
  "quote = [CHR 0x27]"

text \<open>\<^verbatim>\<open>sep.join(xs)\<close>.\<close>

fun join :: "string \<Rightarrow> string list \<Rightarrow> string" where
  "join sep [] = []"
| "join sep [x] = x"
| "join sep (x # y # ys) = x @ sep @ join sep (y # ys)"

text \<open>The conversion \<^verbatim>\<open>%d\<close> of an integer: decimal digits, with a minus sign below zero.\<close>

definition digit :: "nat \<Rightarrow> char" where
  "digit d = char_of (48 + d)"

function dec_nat :: "nat \<Rightarrow> string" where
  "dec_nat n = (if n < 10 then [digit n] else dec_nat (n div 10) @ [digit (n mod 10)])"
  by pat_completeness auto
termination
  by (relation "measure id") auto

definition dec_int :: "int \<Rightarrow> string" where
  "dec_int i = (if i < 0 then CHR ''-'' # dec_nat (nat (- i)) else dec_nat (nat i))"

text \<open>
  \<^verbatim>\<open>repr\<close> of a string and \<^verbatim>\<open>str\<close> of a list of strings. The only list ever rendered is
  the command of the hook, whose words hold no quote, no backslash and no control
  character; on such words \<^verbatim>\<open>repr\<close> only adds the single quotes.
\<close>

definition repr_str :: "string \<Rightarrow> string" where
  "repr_str s = quote @ s @ quote"

definition str_list :: "string list \<Rightarrow> string" where
  "str_list xs = ''['' @ join '', '' (map repr_str xs) @ '']''"

section \<open>The greeting: \<^verbatim>\<open>main.py\<close> and \<^verbatim>\<open>my_cli.py\<close> of the template\<close>

text \<open>
  An f-string is a sequence of literal pieces and replacement fields; a field holding a
  string is rendered as the string itself. \<^verbatim>\<open>greet\<close> returns
  \<^verbatim>\<open>f"Hello, {name}!"\<close>.
\<close>

datatype fpart = Lit string | Field string

fun render :: "fpart \<Rightarrow> string" where
  "render (Lit s) = s"
| "render (Field v) = v"

definition fstring :: "fpart list \<Rightarrow> string" where
  "fstring ps = concat (map render ps)"

definition greet :: "string \<Rightarrow> string" where
  "greet name = fstring [Lit ''Hello, '', Field name, Lit ''!'']"

text \<open>
  The command \<^verbatim>\<open>hello\<close> hands \<^verbatim>\<open>greet(name)\<close> to \<^verbatim>\<open>typer.echo\<close>. That routine belongs to
  a library outside the repository, so it is a parameter: any function from the message
  and the state of the terminal to the new state.
\<close>

definition hello :: "(string \<Rightarrow> 'w \<Rightarrow> 'w) \<Rightarrow> string \<Rightarrow> 'w \<Rightarrow> 'w" where
  "hello echo name w = echo (greet name) w"

section \<open>The post-generation hook: \<^verbatim>\<open>hooks/post_gen_project.py\<close>\<close>

subsection \<open>Exceptions, the external command, standard output, the world\<close>

text \<open>
  The exceptions that can travel through \<^verbatim>\<open>main\<close>:
  \<^item> \<open>CalledProcessError rc cmd\<close>, raised by \<^verbatim>\<open>subprocess.check_call\<close> when the child
    ran and its return code \<open>rc\<close> is not zero;
  \<^item> \<open>OSError errno msg\<close>, raised when the child could not be started at all
    (\<^verbatim>\<open>FileNotFoundError\<close> is the subclass with errno 2, \<^verbatim>\<open>PermissionError\<close> the one
    with errno 13), and by a write that the device behind standard output refuses;
  \<^item> \<open>UnicodeEncodeError\<close>, raised by a write of text that the encoding of standard
    output cannot represent;
  \<^item> \<open>SystemExit n\<close>, raised by \<^verbatim>\<open>sys.exit(n)\<close>.
  Only the first is a \<^verbatim>\<open>CalledProcessError\<close>.
\<close>

datatype exn =
    CalledProcessError int "string list"
  | OSError nat string
  | UnicodeEncodeError
  | SystemExit int

text \<open>
  What starting the external command and waiting for it can yield: the child ran and
  ended with a return code (negative \<open>- n\<close> when signal \<open>n\<close> killed it), or it could
  not be started (the tool is not on the search path, or is not executable). The call
  has no timeout; a child that never ends is not among the results.
\<close>

datatype call_outcome =
    Exited int
  | SpawnFailed nat string

datatype 'a result = Returns 'a | Raises exn

text \<open>
  Standard output. The interpreter may start without one (\<^verbatim>\<open>sys.stdout\<close> is \<^verbatim>\<open>None\<close> when
  the descriptor is closed). A stream that is there answers each write of a text either by
  taking it or by raising: \<open>EncodeError\<close> when its encoding lacks a character of the
  text, \<open>DeviceError errno msg\<close> when the device refuses. Text that was taken may still
  wait in the buffer; \<open>flushes\<close> says whether the flush at the end of the interpreter
  succeeds.
\<close>

datatype write_error = EncodeError | DeviceError nat string

fun raised :: "write_error \<Rightarrow> exn" where
  "raised EncodeError = UnicodeEncodeError"
| "raised (DeviceError errno msg) = OSError errno msg"

record stream =
  accepts :: "string \<Rightarrow> write_error option"
  flushes :: bool

text \<open>
  The state the hook acts on: the commands it has run so far, and the text standard
  output has taken from it, one entry for each call of \<^verbatim>\<open>print\<close> that got any text
  through.
\<close>

record world =
  calls :: "string list list"
  stdout :: "string list"

subsection \<open>Library routines the hook calls\<close>

text \<open>
  \<^verbatim>\<open>subprocess.check_call(cmd)\<close>: run the command once, wait, return 0 when the return
  code is 0 and raise \<^verbatim>\<open>CalledProcessError(retcode, cmd)\<close> otherwise; an error of starting
  the child propagates. The environment \<open>exec\<close> is the command-execution interface: it
  says what running a command yields.
\<close>

definition check_call ::
  "(string list \<Rightarrow> call_outcome) \<Rightarrow> string list \<Rightarrow> world \<Rightarrow> int result \<times> world" where
  "check_call exec cmd w =
     (let w' = w\<lparr>calls := calls w @ [cmd]\<rparr> in
      case exec cmd of
        Exited retcode \<Rightarrow>
          if retcode \<noteq> 0 then (Raises (CalledProcessError retcode cmd), w')
          else (Returns 0, w')
      | SpawnFailed errno msg \<Rightarrow> (Raises (OSError errno msg), w'))"

text \<open>
  \<^verbatim>\<open>str(e)\<close> of a \<^verbatim>\<open>CalledProcessError\<close>, as the module \<^verbatim>\<open>subprocess\<close> of Python 3
  defines it. The table of signal names depends on the platform and is a parameter:
  \<open>sigs n\<close> is the name of signal \<open>n\<close>, if there is one.
\<close>

definition str_CalledProcessError ::
  "(nat \<Rightarrow> string option) \<Rightarrow> int \<Rightarrow> string list \<Rightarrow> string" where
  "str_CalledProcessError sigs returncode cmd =
     (if returncode \<noteq> 0 \<and> returncode < 0 then
        (case sigs (nat (- returncode)) of
           Some nm \<Rightarrow>
             ''Command '' @ quote @ str_list cmd @ quote @ '' died with <Signals.'' @ nm
               @ '': '' @ dec_int (- returncode) @ ''>.''
         | None \<Rightarrow>
             ''Command '' @ quote @ str_list cmd @ quote @ '' died with unknown signal ''
               @ dec_int (- returncode) @ ''.'')
      else
        ''Command '' @ quote @ str_list cmd @ quote @ '' returned non-zero exit status ''
          @ dec_int returncode @ ''.'')"

text \<open>
  \<^verbatim>\<open>print(*args)\<close> writes to the stream piece by piece: each argument, with one space
  before every argument but the first, then the newline. The first write that raises
  ends the call, and what was taken before it stays taken. Without a standard output
  \<^verbatim>\<open>print\<close> does nothing and returns.
\<close>

fun spaced :: "string list \<Rightarrow> string list" where
  "spaced [] = []"
| "spaced [x] = [x]"
| "spaced (x # y # ys) = x # '' '' # spaced (y # ys)"

fun write_pieces :: "stream \<Rightarrow> string list \<Rightarrow> string \<Rightarrow> write_error option \<times> string" where
  "write_pieces s [] acc = (None, acc)"
| "write_pieces s (t # ts) acc =
     (case accepts s t of
        None \<Rightarrow> write_pieces s ts (acc @ t)
      | Some err \<Rightarrow> (Some err, acc))"

definition print :: "stream option \<Rightarrow> string list \<Rightarrow> world \<Rightarrow> unit result \<times> world" where
  "print out args w =
     (case out of
        None \<Rightarrow> (Returns (), w)
      | Some s \<Rightarrow>
          (case write_pieces s (spaced args @ [newline]) [] of
             (r, taken) \<Rightarrow>
               (case r of None \<Rightarrow> Returns () | Some err \<Rightarrow> Raises (raised err),
                if taken = [] then w else w\<lparr>stdout := stdout w @ [taken]\<rparr>)))"

definition sys_exit :: "int \<Rightarrow> 'a result" where
  "sys_exit n = Raises (SystemExit n)"

subsection \<open>The hook\<close>

definition install_cmd :: "string list" where
  "install_cmd = [''pre-commit'', ''install'', ''--install-hooks'']"

definition ok_text :: string where
  "ok_text = check_mark @ '' pre-commit hooks installed''"

definition fail_text :: string where
  "fail_text = cross_mark @ '' pre-commit install failed:''"

text \<open>
  \<^verbatim>\<open>main\<close>. The body of the \<^verbatim>\<open>try\<close> runs the command and then prints the success line;
  an exception of either step leaves the body. The handler takes a
  \<^verbatim>\<open>CalledProcessError\<close> only: it prints the failure line with the exception and leaves
  through \<^verbatim>\<open>sys.exit(1)\<close>, unless that print raises; any other exception passes through.
\<close>

definition try_body ::
  "stream option \<Rightarrow> (string list \<Rightarrow> call_outcome) \<Rightarrow> world \<Rightarrow> unit result \<times> world" where
  "try_body out exec w =
     (case check_call exec install_cmd w of
        (Returns _, w1) \<Rightarrow> print out [ok_text] w1
      | (Raises e, w1) \<Rightarrow> (Raises e, w1))"

definition handler ::
  "(nat \<Rightarrow> string option) \<Rightarrow> stream option \<Rightarrow> exn \<Rightarrow> world \<Rightarrow> unit result \<times> world" where
  "handler sigs out e w =
     (case e of
        CalledProcessError rc cmd \<Rightarrow>
          (case print out [fail_text, str_CalledProcessError sigs rc cmd] w of
             (Returns _, w2) \<Rightarrow> (sys_exit 1, w2)
           | (Raises e', w2) \<Rightarrow> (Raises e', w2))
      | _ \<Rightarrow> (Raises e, w))"

definition main ::
  "(nat \<Rightarrow> string option) \<Rightarrow> stream option \<Rightarrow> (string list \<Rightarrow> call_outcome) \<Rightarrow> world
     \<Rightarrow> unit result \<times> world" where
  "main sigs out exec w =
     (case try_body out exec w of
        (Returns _, w1) \<Rightarrow> (Returns (), w1)
      | (Raises e, w1) \<Rightarrow> handler sigs out e w1)"

text \<open>
  The script as a process (\<^verbatim>\<open>if __name__ == "__main__": main()\<close>), started with nothing
  run and nothing written. The interpreter ends with status 0 when \<^verbatim>\<open>main\<close> returns,
  with status \<open>n\<close> on \<^verbatim>\<open>SystemExit(n)\<close>, and with status 1 after reporting a traceback
  on standard error when any other exception reaches the top level; \<open>fault\<close> records
  that unhandled exception. In each of the three cases the status becomes 120 when text
  was taken by standard output and the final flush fails. \<open>out_lines\<close> is the text
  standard output took; with a final flush that succeeds it is what reached the device.
\<close>

record process =
  exit_code :: int
  out_lines :: "string list"
  invoked :: "string list list"
  fault :: "exn option"

definition status_of :: "unit result \<Rightarrow> int" where
  "status_of r = (case r of Returns _ \<Rightarrow> 0 | Raises (SystemExit n) \<Rightarrow> n | Raises _ \<Rightarrow> 1)"

definition unhandled :: "unit result \<Rightarrow> exn option" where
  "unhandled r = (case r of Returns _ \<Rightarrow> None | Raises (SystemExit n) \<Rightarrow> None | Raises e \<Rightarrow> Some e)"

definition flush_fails :: "stream option \<Rightarrow> world \<Rightarrow> bool" where
  "flush_fails out w = (case out of None \<Rightarrow> False | Some s \<Rightarrow> stdout w \<noteq> [] \<and> \<not> flushes s)"

definition script ::
  "(nat \<Rightarrow> string option) \<Rightarrow> stream option \<Rightarrow> (string list \<Rightarrow> call_outcome) \<Rightarrow> process" where
  "script sigs out exec =
     (case main sigs out exec \<lparr>calls = [], stdout = []\<rparr> of
        (r, w) \<Rightarrow>
          \<lparr>exit_code = (if flush_fails out w then 120 else status_of r),
           out_lines = stdout w, invoked = calls w, fault = unhandled r\<rparr>)"

subsection \<open>Reading the output\<close>

text \<open>
  A message is success-marked when it starts with the check mark and failure-marked when
  it starts with the cross mark.
\<close>

definition success_marked :: "string \<Rightarrow> bool" where
  "success_marked l = (take 3 l = check_mark)"

definition failure_marked :: "string \<Rightarrow> bool" where
  "failure_marked l = (take 3 l = cross_mark)"

text \<open>
  The two outcomes of a run the specification names: a success message with exit status
  0, and a failure message with a non-zero exit status.
\<close>

definition success_outcome :: "process \<Rightarrow> bool" where
  "success_outcome p = (exit_code p = 0 \<and> list_ex success_marked (out_lines p))"

definition failure_outcome :: "process \<Rightarrow> bool" where
  "failure_outcome p = (exit_code p \<noteq> 0 \<and> list_ex failure_marked (out_lines p))"

text \<open>
  The texts \<^verbatim>\<open>main\<close> hands to standard output, in the order of the writes, for each
  result of the external command: the pieces of the success line, the pieces of the
  failure line, or nothing when the tool could not be started.
\<close>

definition hook_texts :: "(nat \<Rightarrow> string option) \<Rightarrow> call_outcome \<Rightarrow> string list" where
  "hook_texts sigs r =
     (case r of
        Exited rc \<Rightarrow>
          if rc \<noteq> 0
          then [fail_text, '' '', str_CalledProcessError sigs rc install_cmd, newline]
          else [ok_text, newline]
      | SpawnFailed errno msg \<Rightarrow> [])"

text \<open>
  Standard output is sound for a list of texts when it is absent, when there is nothing
  to write, or when it takes every text of the list and its final flush succeeds. Two
  standard outputs treat a list of texts alike when there is nothing to write, when both
  are absent, or when both are there, answer every text of the list in the same way and
  agree on the final flush.
\<close>

definition takes_all :: "stream \<Rightarrow> string list \<Rightarrow> bool" where
  "takes_all s ts = list_all (\<lambda>t. accepts s t = None) ts"



subsection \<open>Stand-ins for the environment\<close>

text \<open>
  A stand-in for the external tool yields the same result whatever command is run. The
  tool that is absent from the search path is the stand-in that fails to start with
  errno 2. A short excerpt of a signal table serves as the platform in examples.
\<close>

definition stand_in :: "call_outcome \<Rightarrow> string list \<Rightarrow> call_outcome" where
  "stand_in r cmd = r"

definition tool_absent :: "string list \<Rightarrow> call_outcome" where
  "tool_absent = stand_in (SpawnFailed 2 ''No such file or directory'')"

definition some_signals :: "nat \<Rightarrow> string option" where
  "some_signals n =
     (if n = 2 then Some ''SIGINT'' else if n = 9 then Some ''SIGKILL''
      else if n = 15 then Some ''SIGTERM'' else None)"

text \<open>
  Three standard outputs: one that takes every text and flushes (a UTF-8 terminal), one
  whose encoding is ASCII, so that it refuses a text holding a byte above 127, and one
  that buffers every text and fails at the final flush (a file on a full device).
\<close>

definition utf8_stream :: stream where
  "utf8_stream = \<lparr>accepts = (\<lambda>t. None), flushes = True\<rparr>"

definition ascii_stream :: stream where
  "ascii_stream =
     \<lparr>accepts = (\<lambda>t. if list_all (\<lambda>c. \<not> digit7 c) t then None else Some EncodeError),
      flushes = True\<rparr>"



section \<open>Writing to standard output\<close>

text \<open>
  What a sequence of writes leaves behind: everything when every piece is taken, and in
  any case an extension of what was there. Two streams that answer the pieces alike
  leave the same.
\<close>

lemma write_pieces_all:
  "takes_all s ts \<Longrightarrow> write_pieces s ts acc = (None, acc @ concat ts)"
  by (induction ts arbitrary: acc) (simp_all add: takes_all_def)

lemma write_pieces_extends: "\<exists>rest. snd (write_pieces s ts acc) = acc @ rest"
proof (induction ts arbitrary: acc)
  case Nil
  show ?case by simp
next
  case (Cons t ts)
  show ?case
  proof (cases "accepts s t")
    case None
    from Cons [of "acc @ t"] obtain rest
      where "snd (write_pieces s ts (acc @ t)) = (acc @ t) @ rest" ..
    with None show ?thesis by simp
  next
    case (Some err)
    then show ?thesis by simp
  qed
qed


lemma spaced_Cons: "\<exists>ps. spaced (a # as) = a # ps"
  by (cases as) simp_all


lemma print_takes:
  assumes "takes_all s (spaced args @ [newline])"
  shows "print (Some s) args w =
    (Returns (), w\<lparr>stdout := stdout w @ [concat (spaced args) @ newline]\<rparr>)"
  using write_pieces_all [OF assms, of "[]"] by (simp add: print_def newline_def)

lemma print_calls: "calls (snd (print out args w)) = calls w"
  by (cases out) (simp_all add: print_def split: prod.splits)

lemma print_result:
  "fst (print out args w) = Returns () \<or> (\<exists>err. fst (print out args w) = Raises (raised err))"
  by (cases out) (auto simp add: print_def split: prod.splits option.splits)

lemma print_stdout:
  "stdout (snd (print out (a # as) w)) = stdout w
   \<or> (\<exists>rest. stdout (snd (print out (a # as) w)) = stdout w @ [a @ rest])"
proof (cases out)
  case None
  then show ?thesis by (simp add: print_def)
next
  case (Some s)
  obtain ps where ps: "spaced (a # as) = a # ps"
    using spaced_Cons by blast
  show ?thesis
  proof (cases "accepts s a")
    case None
    obtain rest where "snd (write_pieces s (ps @ [newline]) ([] @ a)) = ([] @ a) @ rest"
      using write_pieces_extends by blast
    with None Some ps show ?thesis
      by (auto simp add: print_def split: prod.splits)
  next
    case (Some err)
    with \<open>out = Some s\<close> ps show ?thesis by (simp add: print_def)
  qed
qed


lemma handler_raised: "handler sigs out (raised err) w = (Raises (raised err), w)"
  by (cases err) (simp_all add: handler_def)

lemma status_of_raised: "status_of (Raises (raised err)) = 1"
  by (cases err) (simp_all add: status_of_def)

lemma unhandled_raised: "unhandled (Raises (raised err)) = Some (raised err)"
  by (cases err) (simp_all add: unhandled_def)

section \<open>What \<^verbatim>\<open>main\<close> does on each result of the external command\<close>

text \<open>
  The three paths through \<^verbatim>\<open>main\<close>, from any starting state: the tool ended with
  status 0, the tool ended with another status, the tool could not be started.
\<close>

lemma main_exited_zero:
  assumes "exec install_cmd = Exited 0"
  shows "main sigs out exec w = print out [ok_text] (w\<lparr>calls := calls w @ [install_cmd]\<rparr>)"
proof -
  let ?w1 = "w\<lparr>calls := calls w @ [install_cmd]\<rparr>"
  obtain r w2 where p: "print out [ok_text] ?w1 = (r, w2)"
    by (cases "print out [ok_text] ?w1")
  from assms p have body: "try_body out exec w = (r, w2)"
    by (simp add: try_body_def check_call_def)
  from print_result [of out "[ok_text]" ?w1] p
  have "r = Returns () \<or> (\<exists>err. r = Raises (raised err))" by simp
  then have "main sigs out exec w = (r, w2)"
    using body by (auto simp add: main_def handler_raised)
  with p show ?thesis by simp
qed

lemma main_exited_nonzero:
  assumes "exec install_cmd = Exited rc" and "rc \<noteq> 0"
  shows "main sigs out exec w =
    (case print out [fail_text, str_CalledProcessError sigs rc install_cmd]
            (w\<lparr>calls := calls w @ [install_cmd]\<rparr>) of
       (Returns _, w2) \<Rightarrow> (Raises (SystemExit 1), w2)
     | (Raises e, w2) \<Rightarrow> (Raises e, w2))"
  using assms
  by (simp add: main_def try_body_def check_call_def handler_def sys_exit_def
      split: prod.splits result.splits)

lemma main_spawn_failed:
  assumes "exec install_cmd = SpawnFailed en msg"
  shows "main sigs out exec w =
    (Raises (OSError en msg), w\<lparr>calls := calls w @ [install_cmd]\<rparr>)"
  using assms by (simp add: main_def try_body_def check_call_def handler_def)

text \<open>
  After a non-zero status \<^verbatim>\<open>main\<close> never returns normally: it leaves through
  \<^verbatim>\<open>sys.exit(1)\<close> or through the exception of the failed print; standard output holds
  nothing new, or one entry that starts with the failure text.
\<close>

lemma main_exited_nonzero_shape:
  assumes "exec install_cmd = Exited rc" and "rc \<noteq> 0"
  shows "\<exists>r w2. main sigs out exec w = (r, w2)
           \<and> (r = Raises (SystemExit 1) \<or> (\<exists>err. r = Raises (raised err)))
           \<and> calls w2 = calls w @ [install_cmd]
           \<and> (stdout w2 = stdout w \<or> (\<exists>rest. stdout w2 = stdout w @ [fail_text @ rest]))"
proof -
  let ?w1 = "w\<lparr>calls := calls w @ [install_cmd]\<rparr>"
  let ?args = "[fail_text, str_CalledProcessError sigs rc install_cmd]"
  obtain r w2 where p: "print out ?args ?w1 = (r, w2)"
    by (cases "print out ?args ?w1")
  from print_result [of out ?args ?w1] p
  have r: "r = Returns () \<or> (\<exists>err. r = Raises (raised err))" by simp
  from print_calls [of out ?args ?w1] p
  have c: "calls w2 = calls w @ [install_cmd]" by simp
  from print_stdout [of out fail_text "[str_CalledProcessError sigs rc install_cmd]" ?w1] p
  have s: "stdout w2 = stdout w \<or> (\<exists>rest. stdout w2 = stdout w @ [fail_text @ rest])"
    by simp
  from r show ?thesis
  proof
    assume "r = Returns ()"
    with p assms have "main sigs out exec w = (Raises (SystemExit 1), w2)"
      by (simp add: main_exited_nonzero)
    with c s show ?thesis by simp
  next
    assume "\<exists>err. r = Raises (raised err)"
    then obtain err where "r = Raises (raised err)" ..
    with p assms have "main sigs out exec w = (Raises (raised err), w2)"
      by (simp add: main_exited_nonzero)
    with c s show ?thesis by auto
  qed
qed

text \<open>The same paths seen from outside the process, with a standard output that is sound.\<close>

lemma script_exited_zero:
  assumes "exec install_cmd = Exited 0" and "takes_all s [ok_text, newline]" and "flushes s"
  shows "script sigs (Some s) exec =
    \<lparr>exit_code = 0, out_lines = [ok_text @ newline], invoked = [install_cmd],
     fault = None\<rparr>"
proof -
  from assms(2) have "takes_all s (spaced [ok_text] @ [newline])" by simp
  from print_takes [OF this] assms(1,3) show ?thesis
    by (simp add: script_def main_exited_zero flush_fails_def status_of_def unhandled_def)
qed

lemma script_exited_nonzero:
  assumes "exec install_cmd = Exited rc" and "rc \<noteq> 0"
    and "takes_all s [fail_text, '' '', str_CalledProcessError sigs rc install_cmd, newline]"
    and "flushes s"
  shows "script sigs (Some s) exec =
    \<lparr>exit_code = 1,
     out_lines = [fail_text @ '' '' @ str_CalledProcessError sigs rc install_cmd @ newline],
     invoked = [install_cmd], fault = None\<rparr>"
proof -
  from assms(3)
  have "takes_all s (spaced [fail_text, str_CalledProcessError sigs rc install_cmd] @ [newline])"
    by simp
  from print_takes [OF this] assms(1,2,4) show ?thesis
    by (simp add: script_def main_exited_nonzero flush_fails_def status_of_def unhandled_def)
qed


lemma script_spawn_failed:
  assumes "exec install_cmd = SpawnFailed en msg"
  shows "script sigs out exec =
    \<lparr>exit_code = 1, out_lines = [], invoked = [install_cmd],
     fault = Some (OSError en msg)\<rparr>"
  using assms
  by (cases out)
    (simp_all add: script_def main_spawn_failed flush_fails_def status_of_def unhandled_def)

text \<open>The two lines the hook can print carry different marks, whatever follows them.\<close>

lemma ok_line_marked:
  "success_marked (ok_text @ rest)" "\<not> failure_marked (ok_text @ rest)"
  by (simp_all add: success_marked_def failure_marked_def ok_text_def check_mark_def
      cross_mark_def)

lemma fail_line_marked:
  "failure_marked (fail_text @ rest)" "\<not> success_marked (fail_text @ rest)"
  by (simp_all add: success_marked_def failure_marked_def fail_text_def check_mark_def
      cross_mark_def)

lemma tool_absent_install: "tool_absent install_cmd = SpawnFailed 2 ''No such file or directory''"
  by (simp add: tool_absent_def stand_in_def)


lemma utf8_takes_all: "takes_all utf8_stream ts"
  by (induction ts) (simp_all add: takes_all_def utf8_stream_def)

lemma utf8_flushes: "flushes utf8_stream"
  by (simp add: utf8_stream_def)

text \<open>
  Whenever the tool was started and ended, with whatever status, and standard output is
  there and sound for the texts of the run, the run shows exactly one of the two
  outcomes.
\<close>

lemma tool_ran_exactly_one_outcome:
  assumes "exec install_cmd = Exited rc"
    and "takes_all s (hook_texts sigs (Exited rc))" and "flushes s"
  shows "success_outcome (script sigs (Some s) exec)
           \<noteq> failure_outcome (script sigs (Some s) exec)"
proof (cases "rc = 0")
  case True
  with assms have "exec install_cmd = Exited 0" "takes_all s [ok_text, newline]"
    by (simp_all add: hook_texts_def)
  with assms(3) show ?thesis
    by (simp add: script_exited_zero success_outcome_def failure_outcome_def ok_line_marked)
next
  case False
  with assms(2)
  have "takes_all s [fail_text, '' '', str_CalledProcessError sigs rc install_cmd, newline]"
    by (simp add: hook_texts_def)
  with assms(1,3) False show ?thesis
    by (simp add: script_exited_nonzero success_outcome_def failure_outcome_def
        fail_line_marked)
qed

text \<open>On every path \<^verbatim>\<open>main\<close> adds the one command to those already run.\<close>

lemma main_calls: "calls (snd (main sigs out exec w)) = calls w @ [install_cmd]"
proof (cases "exec install_cmd")
  case (Exited rc)
  show ?thesis
  proof (cases "rc = 0")
    case True
    with Exited show ?thesis
      by (simp add: main_exited_zero print_calls)
  next
    case False
    from main_exited_nonzero_shape
      [where exec = exec and rc = rc and sigs = sigs and out = out and w = w, OF Exited False]
    show ?thesis by auto
  qed
next
  case (SpawnFailed en msg)
  then show ?thesis by (simp add: main_spawn_failed)
qed

lemma script_invoked: "invoked (script sigs out exec) = [install_cmd]"
  using main_calls [of sigs out exec "\<lparr>calls = [], stdout = []\<rparr>"]
  by (cases "main sigs out exec \<lparr>calls = [], stdout = []\<rparr>") (simp add: script_def)


section \<open>The claims about the hook\<close>

text \<open>
  C1. The claim: for every result of the external command (success, non-zero exit, or
  command not invocable) the run shows exactly one of \<open>success message and exit 0\<close> or
  \<open>failure message and non-zero exit\<close>. The code does not do this when the tool is
  absent: \<^verbatim>\<open>check_call\<close> raises an \<^verbatim>\<open>OSError\<close>, the handler for
  \<^verbatim>\<open>CalledProcessError\<close> does not catch it, nothing is printed, and the process ends
  with status 1 on the unhandled exception. That run shows neither outcome, whatever
  standard output is.
\<close>

theorem absent_tool_neither_outcome:
  "script some_signals out tool_absent =
     \<lparr>exit_code = 1, out_lines = [], invoked = [install_cmd],
      fault = Some (OSError 2 ''No such file or directory'')\<rparr>
   \<and> \<not> success_outcome (script some_signals out tool_absent)
   \<and> \<not> failure_outcome (script some_signals out tool_absent)"
  by (simp add: script_spawn_failed [where exec = tool_absent, OF tool_absent_install]
      success_outcome_def failure_outcome_def)

text \<open>
  C2. The claim: with the tool absent from the search path the run behaves as when the
  tool ends with a non-zero status, printing a failure-marked message and exiting
  non-zero, not ending on an unhandled fault. On the code the two runs differ: the
  absent tool leaves an unhandled \<^verbatim>\<open>OSError\<close> and no failure-marked message, whatever
  standard output is, while on a terminal that takes every text the tool that ends with
  status 1 leaves no fault and a failure-marked message.
\<close>

theorem absent_tool_unhandled_fault:
  "fault (script some_signals out tool_absent) = Some (OSError 2 ''No such file or directory'')
   \<and> \<not> list_ex failure_marked (out_lines (script some_signals out tool_absent))
   \<and> fault (script some_signals (Some utf8_stream) (stand_in (Exited 1))) = None
   \<and> list_ex failure_marked
        (out_lines (script some_signals (Some utf8_stream) (stand_in (Exited 1))))
   \<and> script some_signals (Some utf8_stream) tool_absent
        \<noteq> script some_signals (Some utf8_stream) (stand_in (Exited 1))"
proof -
  have ran: "stand_in (Exited 1) install_cmd = Exited 1"
    by (simp add: stand_in_def)
  have one: "(1::int) \<noteq> 0" by simp
  note failing =
    script_exited_nonzero [where exec = "stand_in (Exited 1)" and s = utf8_stream
      and sigs = some_signals, OF ran one utf8_takes_all utf8_flushes]
  show ?thesis
    by (simp add: script_spawn_failed [where exec = tool_absent, OF tool_absent_install]
        failing fail_line_marked)
qed







text \<open>
  C5. In every run where the installation call failed, the tool having ended with a
  non-zero status or not having been started at all, and whatever standard output does,
  the process does not exit with status 0 and no success-marked message is printed.
\<close>

theorem failed_install_no_success:
  assumes "exec install_cmd \<noteq> Exited 0"
  shows "exit_code (script sigs out exec) \<noteq> 0
         \<and> \<not> list_ex success_marked (out_lines (script sigs out exec))"
proof (cases "exec install_cmd")
  case (Exited rc)
  with assms have "rc \<noteq> 0" by simp
  from main_exited_nonzero_shape
    [where exec = exec and rc = rc and sigs = sigs and out = out
       and w = "\<lparr>calls = [], stdout = []\<rparr>", OF Exited this]
  obtain r w2 where run: "main sigs out exec \<lparr>calls = [], stdout = []\<rparr> = (r, w2)"
    and r: "r = Raises (SystemExit 1) \<or> (\<exists>err. r = Raises (raised err))"
    and s: "stdout w2 = [] \<or> (\<exists>rest. stdout w2 = [fail_text @ rest])"
    by auto
  from r have "status_of r = 1"
  proof
    assume "r = Raises (SystemExit 1)"
    then show ?thesis by (simp add: status_of_def)
  next
    assume "\<exists>err. r = Raises (raised err)"
    then show ?thesis by (auto simp add: status_of_raised)
  qed
  with run have "exit_code (script sigs out exec) \<noteq> 0"
    by (simp add: script_def)
  moreover from s run have "\<not> list_ex success_marked (out_lines (script sigs out exec))"
    by (auto simp add: script_def fail_line_marked)
  ultimately show ?thesis by simp
next
  case (SpawnFailed en msg)
  then show ?thesis by (simp add: script_spawn_failed)
qed

theorem failed_install_no_success_witness:
  "tool_absent install_cmd \<noteq> Exited 0
   \<and> exit_code (script some_signals (Some utf8_stream) tool_absent) \<noteq> 0
   \<and> \<not> list_ex success_marked (out_lines (script some_signals (Some utf8_stream) tool_absent))
   \<and> stand_in (Exited (- 9)) install_cmd \<noteq> Exited 0
   \<and> exit_code (script some_signals (Some ascii_stream) (stand_in (Exited (- 9)))) \<noteq> 0
   \<and> \<not> list_ex success_marked
        (out_lines (script some_signals (Some ascii_stream) (stand_in (Exited (- 9)))))"
  using failed_install_no_success
      [where exec = tool_absent and sigs = some_signals and out = "Some utf8_stream"]
    failed_install_no_success
      [where exec = "stand_in (Exited (- 9))" and sigs = some_signals
         and out = "Some ascii_stream"]
  by (simp add: tool_absent_def stand_in_def)




text \<open>
  C7. In every run, whatever the external command yields and whatever standard output
  does, the commands run by the process are exactly one:
  \<^verbatim>\<open>pre-commit install --install-hooks\<close>, the tool given by its bare name. From any
  starting state \<^verbatim>\<open>main\<close> adds that one command to those already run; a failure is
  followed by no second attempt.
\<close>

theorem tool_invoked_once:
  "invoked (script sigs out exec) = [[''pre-commit'', ''install'', ''--install-hooks'']]
   \<and> calls (snd (main sigs out exec w)) =
       calls w @ [[''pre-commit'', ''install'', ''--install-hooks'']]"
  using script_invoked [of sigs out exec] main_calls [of sigs out exec w]
  by (simp add: install_cmd_def)




section \<open>The claims about the greeting\<close>

text \<open>
  C8. For every name, \<^verbatim>\<open>greet\<close> returns \<^verbatim>\<open>Hello, \<close> followed by the name followed by
  an exclamation mark; for the name of the repository's test, \<^verbatim>\<open>Developer\<close>, it returns
  \<^verbatim>\<open>Hello, Developer!\<close>.
\<close>

theorem greet_text:
  "greet name = ''Hello, '' @ name @ ''!'' \<and> greet ''Developer'' = ''Hello, Developer!''"
  by (simp add: greet_def fstring_def)

text \<open>
  C9. For every name and every output routine, the command \<^verbatim>\<open>hello\<close> does what the
  routine does on the value of \<^verbatim>\<open>greet\<close>, unchanged: the message it emits is
  \<^verbatim>\<open>Hello, \<close>, the name, an exclamation mark.
\<close>

theorem hello_passes_greeting:
  "hello echo name w = echo (greet name) w
   \<and> hello echo name w = echo (''Hello, '' @ name @ ''!'') w"
  by (simp add: hello_def greet_def fstring_def)

end
